theory Spec2Isabelle
  imports Complex_Main "HOL-Library.Word"
begin

section \<open>Data model of \<^verbatim>\<open>Project1/main.go\<close>\<close>

text \<open>
  Every field of the Go structs is an \<^verbatim>\<open>int64\<close>: a 64-bit word whose \<open>+\<close> and \<open>-\<close>
  wrap around and whose order is the signed one (\<open><s\<close>, \<open><=s\<close>). Go's \<^verbatim>\<open>int\<close> is
  taken to be 64 bits wide as well, so that the conversions \<^verbatim>\<open>int(...)\<close> and
  \<^verbatim>\<open>int64(...)\<close> in the selection loop are the identity.
\<close>

type_synonym int64 = "64 word"

record Process =
  ProcessID :: int64
  ArrivalTime :: int64
  BurstDuration :: int64
  Priority :: int64

record TimeSlice =
  PID :: int64
  Start :: int64
  Stop :: int64

definition MaxInt64 :: int64 where
  "MaxInt64 = 9223372036854775807"

subsection \<open>\<^verbatim>\<open>float64\<close> accumulators\<close>

text \<open>
  The running totals and the three averages are \<^verbatim>\<open>float64\<close>. They are modelled
  by their exact value, a rational, together with the three special values of IEEE 754
  that a division can produce; rounding is left out (the totals are sums of converted
  integers, exact below \<open>2 ^ 53\<close>). No negative zero arises in the program: every
  zero is the initial value of a variable or the conversion of an integer, so a
  division by zero has the sign of its numerator.
\<close>

datatype float64 = Fin rat | PosInf | NegInf | NaN

definition float64_of :: "int64 \<Rightarrow> float64" where
  "float64_of x = Fin (of_int (sint x))"

definition float64_len :: "nat \<Rightarrow> float64" where
  "float64_len n = Fin (of_nat n)"

fun fadd :: "float64 \<Rightarrow> float64 \<Rightarrow> float64" where
  "fadd (Fin a) (Fin b) = Fin (a + b)"
| "fadd NaN y = NaN"
| "fadd x NaN = NaN"
| "fadd PosInf NegInf = NaN"
| "fadd NegInf PosInf = NaN"
| "fadd PosInf y = PosInf"
| "fadd x PosInf = PosInf"
| "fadd NegInf y = NegInf"
| "fadd x NegInf = NegInf"

fun fdiv :: "float64 \<Rightarrow> float64 \<Rightarrow> float64" where
  "fdiv (Fin a) (Fin b) =
     (if b = 0 then (if a = 0 then NaN else if 0 < a then PosInf else NegInf)
      else Fin (a / b))"
| "fdiv NaN y = NaN"
| "fdiv x NaN = NaN"
| "fdiv (Fin a) PosInf = Fin 0"
| "fdiv (Fin a) NegInf = Fin 0"
| "fdiv PosInf (Fin b) = (if 0 \<le> b then PosInf else NegInf)"
| "fdiv NegInf (Fin b) = (if 0 \<le> b then NegInf else PosInf)"
| "fdiv x y = NaN"

subsection \<open>Table rows\<close>

text \<open>
  A row of the schedule table is a \<^verbatim>\<open>[]string\<close> whose cells are printed by
  \<^verbatim>\<open>fmt.Sprint\<close>. A cell is kept as the value that was printed, tagged with its
  type: \<open>SprintInt x\<close> is the decimal numeral of the \<^verbatim>\<open>int64\<close> \<open>x\<close>,
  \<open>SprintFloat y\<close> the rendering of the \<^verbatim>\<open>float64\<close> \<open>y\<close>. The first cell of
  every row is a \<open>SprintInt\<close>, and \<^verbatim>\<open>strconv.FormatInt(pid, 10)\<close> prints the same
  decimal numeral as \<^verbatim>\<open>fmt.Sprint(pid)\<close>, so comparing the strings in
  \<^verbatim>\<open>containsPID\<close> is comparing the cells.
\<close>

datatype cell = SprintInt int64 | SprintFloat float64

type_synonym row = "cell list"

definition FormatInt :: "int64 \<Rightarrow> cell" where
  "FormatInt pid = SprintInt pid"

text \<open>
  What a scheduler hands to \<^verbatim>\<open>outputGantt\<close> and \<^verbatim>\<open>outputSchedule\<close>. The
  writer and the title only reach the printing helpers and are left out.
\<close>

record Output =
  out_gantt :: "TimeSlice list"
  out_rows :: "row list"
  out_wait :: float64
  out_turnaround :: float64
  out_throughput :: float64

subsection \<open>Local variables of the schedulers\<close>

record vars =
  serviceTime :: int64
  totalTurnaround :: float64
  lastCompletion :: float64
  schedule :: "row list"
  gantt :: "TimeSlice list"

text \<open>\<^verbatim>\<open>FCFSSchedule\<close> and \<^verbatim>\<open>SJFSchedule\<close>: one scalar \<^verbatim>\<open>waitingTime\<close>.\<close>

record fcfs_vars = vars +
  totalWait :: float64
  waitingTime :: int64

text \<open>
  \<^verbatim>\<open>SJFPrioritySchedule\<close> and \<^verbatim>\<open>RRSchedule\<close>: \<^verbatim>\<open>waitingTime\<close> and
  \<^verbatim>\<open>remainingTime\<close> are slices indexed like \<^verbatim>\<open>processes\<close>; the former is the
  field \<open>waitingTimes\<close> here.
\<close>

record sim_vars = vars +
  waitingTimes :: "int64 list"
  remainingTime :: "int64 list"

section \<open>Helpers\<close>

text \<open>
  \<^verbatim>\<open>containsPID\<close> (lines 379-386). Indexing an empty row would panic in Go; the
  schedulers that call it only ever append rows of six or seven cells.
\<close>

fun containsPID :: "row list \<Rightarrow> int64 \<Rightarrow> bool" where
  "containsPID [] pid = False"
| "containsPID (process # rest) pid =
     (if FormatInt pid = process ! 0 then True else containsPID rest pid)"

text \<open>\<^verbatim>\<open>lastArrivalTime\<close> (lines 387-395).\<close>

definition lastArrivalTime :: "Process list \<Rightarrow> int64" where
  "lastArrivalTime processes =
     foldl (\<lambda>lastArrival p. if lastArrival <s ArrivalTime p then ArrivalTime p else lastArrival)
       0 processes"

section \<open>First-come, first-serve\<close>

text \<open>
  One pass of the loop of lines 93-123 at index \<open>i\<close>. The table is allocated with one
  (nil) row per process and row \<open>i\<close> is assigned.
\<close>

definition fcfs_iter :: "Process list \<Rightarrow> fcfs_vars \<Rightarrow> nat \<Rightarrow> fcfs_vars" where
  "fcfs_iter processes v i =
     (let p = processes ! i;
          w = (if 0 <s ArrivalTime p then serviceTime v - ArrivalTime p else waitingTime v);
          start = w + ArrivalTime p;
          turnaround = BurstDuration p + w;
          completion = BurstDuration p + ArrivalTime p + w;
          st = serviceTime v + BurstDuration p
      in v\<lparr> waitingTime := w,
            totalWait := fadd (totalWait v) (float64_of w),
            totalTurnaround := fadd (totalTurnaround v) (float64_of turnaround),
            lastCompletion := float64_of completion,
            schedule := (schedule v)[i :=
              [SprintInt (ProcessID p), SprintInt (Priority p), SprintInt (BurstDuration p),
               SprintInt (ArrivalTime p), SprintInt w, SprintInt turnaround,
               SprintInt completion]],
            serviceTime := st,
            gantt := gantt v @ [\<lparr>PID = ProcessID p, Start = start, Stop = st\<rparr>] \<rparr>)"

definition fcfs_init :: "Process list \<Rightarrow> fcfs_vars" where
  "fcfs_init processes =
     \<lparr> serviceTime = 0, totalTurnaround = Fin 0, lastCompletion = Fin 0,
       schedule = replicate (length processes) [], gantt = [],
       totalWait = Fin 0, waitingTime = 0 \<rparr>"

definition fcfs_loop :: "Process list \<Rightarrow> fcfs_vars" where
  "fcfs_loop processes = foldl (fcfs_iter processes) (fcfs_init processes) [0..<length processes]"

text \<open>Lines 125-132: the averages and the hand-over to the printing helpers.\<close>

definition fcfs_output :: "Process list \<Rightarrow> fcfs_vars \<Rightarrow> Output" where
  "fcfs_output processes v =
     (let count = float64_len (length processes)
      in \<lparr> out_gantt = gantt v, out_rows = schedule v,
           out_wait = fdiv (totalWait v) count,
           out_turnaround = fdiv (totalTurnaround v) count,
           out_throughput = fdiv count (lastCompletion v) \<rparr>)"

text \<open>
  A scheduler returns the contents of the caller's \<^verbatim>\<open>processes\<close> slice after the
  call (the slice shares its backing array with the caller's) and its output.
  \<^verbatim>\<open>FCFSSchedule\<close> only reads the slice.
\<close>

definition FCFSSchedule :: "Process list \<Rightarrow> Process list \<times> Output" where
  "FCFSSchedule processes = (processes, fcfs_output processes (fcfs_loop processes))"

section \<open>Shortest job first\<close>

text \<open>
  Modelled from the Go standard library: \<^verbatim>\<open>sort.Slice\<close> with the comparison of
  lines 243-245, which sorts the slice in place. On a slice of at most six elements every
  Go release runs a plain insertion sort (at most twelve since Go 1.19): element \<open>i\<close> is
  swapped towards the front while it is less than its predecessor. On longer slices the
  library may order equal bursts differently.
\<close>

fun insertLess :: "Process \<Rightarrow> Process list \<Rightarrow> Process list" where
  "insertLess x [] = [x]"
| "insertLess x (y # ys) =
     (if BurstDuration x <s BurstDuration (last (y # ys)) then
        insertLess x (butlast (y # ys)) @ [last (y # ys)]
      else (y # ys) @ [x])"

definition sortSlice :: "Process list \<Rightarrow> Process list" where
  "sortSlice processes = foldl (\<lambda>sorted p. insertLess p sorted) [] processes"

text \<open>
  Lines 247-288 repeat lines 93-132 of \<^verbatim>\<open>FCFSSchedule\<close> token for token, run on the
  sorted slice.
\<close>

definition SJFSchedule :: "Process list \<Rightarrow> Process list \<times> Output" where
  "SJFSchedule processes =
     (let sorted = sortSlice processes
      in (sorted, fcfs_output sorted (fcfs_loop sorted)))"

section \<open>The tick-driven schedulers\<close>

text \<open>
  Lines 136-149 and 295-308: both schedulers start from the same variables, with
  \<^verbatim>\<open>remainingTime[i]\<close> set to the burst of process \<open>i\<close>.
\<close>

definition sim_init :: "Process list \<Rightarrow> sim_vars" where
  "sim_init processes =
     \<lparr> serviceTime = 0, totalTurnaround = Fin 0, lastCompletion = Fin 0,
       schedule = [], gantt = [],
       waitingTimes = replicate (length processes) 0,
       remainingTime = map BurstDuration processes \<rparr>"

text \<open>
  Lines 201-205 and 359-363 (the same loop in both schedulers): the waiting time of a
  process that arrives exactly now and has no row yet is set back to zero.
\<close>

definition resetWaiting :: "Process list \<Rightarrow> sim_vars \<Rightarrow> sim_vars" where
  "resetWaiting processes v0 =
     foldl (\<lambda>v i.
        if ArrivalTime (processes ! i) = serviceTime v \<and> 0 <s remainingTime v ! i
           \<and> \<not> containsPID (schedule v) (ProcessID (processes ! i))
        then v\<lparr>waitingTimes := (waitingTimes v)[i := 0]\<rparr>
        else v) v0 [0..<length processes]"

text \<open>
  Lines 220-227 and 366-373 (again the same in both): the average wait is computed from
  \<^verbatim>\<open>totalTurnaround\<close>, as the source has it.
\<close>

definition sim_output :: "Process list \<Rightarrow> sim_vars \<Rightarrow> Output" where
  "sim_output processes v =
     (let count = float64_len (length processes);
          averageWait = fdiv (totalTurnaround v) count;
          averageThroughput = fdiv count (lastCompletion v);
          averageTurnaround = fdiv (totalTurnaround v) count
      in \<lparr> out_gantt = gantt v, out_rows = schedule v,
           out_wait = averageWait, out_turnaround = averageTurnaround,
           out_throughput = averageThroughput \<rparr>)"

subsection \<open>Priority scheduling\<close>

text \<open>
  Lines 152-164: the left-to-right scan for the arrived, unfinished process of least
  priority value; \<open>- 1\<close> when there is none.
\<close>

definition selectProcess :: "Process list \<Rightarrow> sim_vars \<Rightarrow> int \<times> int64" where
  "selectProcess processes v =
     foldl (\<lambda>(selected, Shortest) i.
        if ArrivalTime (processes ! i) <=s serviceTime v \<and> 0 <s remainingTime v ! i
           \<and> Priority (processes ! i) <s Shortest
        then (int i, Priority (processes ! i))
        else (selected, Shortest)) (- 1, MaxInt64) [0..<length processes]"

text \<open>
  Lines 167-196, the branch \<^verbatim>\<open>selected >= 0\<close>. \<^verbatim>\<open>serviceTime\<close> is not assigned
  in this branch.
\<close>

definition prio_run :: "Process list \<Rightarrow> nat \<Rightarrow> sim_vars \<Rightarrow> sim_vars" where
  "prio_run processes selected v =
     (let p = processes ! selected;
          wts = (if waitingTimes v ! selected = 0
                 then (waitingTimes v)[selected := serviceTime v - ArrivalTime p]
                 else waitingTimes v);
          sched = (if containsPID (schedule v) (ProcessID p) then schedule v
                   else schedule v @
                     [[SprintInt (ProcessID p), SprintInt (Priority p),
                       SprintInt (BurstDuration p), SprintInt (ArrivalTime p),
                       SprintInt (wts ! selected),
                       SprintFloat (fadd (totalTurnaround v)
                          (float64_of (serviceTime v - ArrivalTime p))),
                       SprintFloat (fadd (totalTurnaround v)
                          (float64_of (serviceTime v - ArrivalTime p + BurstDuration p)))]]);
          v1 = v\<lparr>waitingTimes := wts, schedule := sched\<rparr>;
          v2 = (if 1 <s remainingTime v ! selected
                then v1\<lparr>remainingTime := (remainingTime v)[selected := remainingTime v ! selected - 1]\<rparr>
                else v1\<lparr>remainingTime := (remainingTime v)[selected := 0],
                        totalTurnaround := fadd (totalTurnaround v)
                          (float64_of (serviceTime v - ArrivalTime p + 1)),
                        lastCompletion := float64_of (serviceTime v + 1)\<rparr>)
      in v2\<lparr>gantt := gantt v @
            [\<lparr>PID = ProcessID p, Start = serviceTime v, Stop = serviceTime v + 1\<rparr>]\<rparr>)"

text \<open>
  One pass of the loop of lines 151-218. The second selection of lines 207-217 assigns
  only \<^verbatim>\<open>selected\<close> and \<^verbatim>\<open>Shortest\<close>, which are declared afresh by the next
  pass, so it (and the flag \<^verbatim>\<open>completed\<close> that guards it) changes nothing.
\<close>

definition prio_body :: "Process list \<Rightarrow> sim_vars \<Rightarrow> sim_vars" where
  "prio_body processes v =
     (let selected = fst (selectProcess processes v)
      in resetWaiting processes
           (if 0 \<le> selected then prio_run processes (nat selected) v
            else v\<lparr>serviceTime := serviceTime v + 1\<rparr>))"

text \<open>The loop test of lines 151 and 311 (the same in both schedulers).\<close>

definition loop_cond :: "Process list \<Rightarrow> sim_vars \<Rightarrow> bool" where
  "loop_cond processes v =
     (serviceTime v <s lastArrivalTime processes \<or> length (schedule v) < length processes)"

partial_function (option) prio_loop :: "Process list \<Rightarrow> sim_vars \<Rightarrow> sim_vars option" where
  "prio_loop processes v =
     (if loop_cond processes v then prio_loop processes (prio_body processes v) else Some v)"

text \<open>\<open>None\<close>: the loop never exits and nothing is printed.\<close>

definition SJFPrioritySchedule :: "Process list \<Rightarrow> (Process list \<times> Output) option" where
  "SJFPrioritySchedule processes =
     map_option (\<lambda>v. (processes, sim_output processes v))
       (prio_loop processes (sim_init processes))"

subsection \<open>Round robin\<close>

text \<open>
  Lines 316-351: the body of the scan at index \<open>i\<close>. The flag is \<^verbatim>\<open>completed\<close>.
  The slice put on the chart starts at the new \<^verbatim>\<open>serviceTime\<close> minus the quantum.
\<close>

definition rr_dispatch :: "Process list \<Rightarrow> int64 \<Rightarrow> sim_vars \<times> bool \<Rightarrow> nat \<Rightarrow> sim_vars \<times> bool" where
  "rr_dispatch processes timeQuantum vc i =
     (let v = fst vc; p = processes ! i
      in if ArrivalTime p <=s serviceTime v \<and> 0 <s remainingTime v ! i then
           (let wts = (if waitingTimes v ! i = 0
                       then (waitingTimes v)[i := serviceTime v - ArrivalTime p]
                       else waitingTimes v);
                sched = (if containsPID (schedule v) (ProcessID p) then schedule v
                         else schedule v @
                           [[SprintInt (ProcessID p), SprintInt (Priority p),
                             SprintInt (BurstDuration p), SprintInt (ArrivalTime p),
                             SprintFloat (totalTurnaround v),
                             SprintFloat (fadd (totalTurnaround v) (float64_of (ArrivalTime p)))]]);
                v1 = v\<lparr>waitingTimes := wts, schedule := sched\<rparr>;
                st = (if timeQuantum <s remainingTime v ! i then serviceTime v + timeQuantum
                      else serviceTime v + remainingTime v ! i);
                v2 = (if timeQuantum <s remainingTime v ! i
                      then v1\<lparr>serviceTime := st,
                              remainingTime := (remainingTime v)[i := remainingTime v ! i - timeQuantum]\<rparr>
                      else v1\<lparr>serviceTime := st,
                              totalTurnaround := fadd (totalTurnaround v) (float64_of (st - ArrivalTime p)),
                              remainingTime := (remainingTime v)[i := 0]\<rparr>);
                completed = (if timeQuantum <s remainingTime v ! i then snd vc else True)
            in (v2\<lparr>gantt := gantt v @
                  [\<lparr>PID = ProcessID p, Start = st - timeQuantum, Stop = st\<rparr>]\<rparr>, completed))
         else vc)"

text \<open>One pass of the loop of lines 311-364.\<close>

definition rr_body :: "Process list \<Rightarrow> int64 \<Rightarrow> sim_vars \<Rightarrow> sim_vars" where
  "rr_body processes timeQuantum v =
     (let vc = foldl (rr_dispatch processes timeQuantum) (v, False) [0..<length processes]
      in resetWaiting processes
           (if snd vc then fst vc else (fst vc)\<lparr>serviceTime := serviceTime (fst vc) + 1\<rparr>))"

partial_function (option) rr_loop :: "Process list \<Rightarrow> int64 \<Rightarrow> sim_vars \<Rightarrow> sim_vars option" where
  "rr_loop processes timeQuantum v =
     (if loop_cond processes v then rr_loop processes timeQuantum (rr_body processes timeQuantum v)
      else Some v)"

definition RRSchedule :: "Process list \<Rightarrow> int64 \<Rightarrow> (Process list \<times> Output) option" where
  "RRSchedule processes timeQuantum =
     map_option (\<lambda>v. (processes, sim_output processes v))
       (rr_loop processes timeQuantum (sim_init processes))"

section \<open>Reading the output\<close>

text \<open>
  The header that \<^verbatim>\<open>outputSchedule\<close> prints over the rows (line 426) names the
  columns: ID, Priority, Burst, Arrival, Wait, Turnaround, Exit. The definitions of this
  section follow the specification's words and are compared with what the schedulers
  compute.
\<close>

definition cell_value :: "cell \<Rightarrow> float64" where
  "cell_value c = (case c of SprintInt x \<Rightarrow> float64_of x | SprintFloat y \<Rightarrow> y)"

definition column :: "nat \<Rightarrow> row list \<Rightarrow> float64 list" where
  "column k rows = map (\<lambda>r. cell_value (r ! k)) rows"

definition wait_column :: "row list \<Rightarrow> float64 list" where
  "wait_column rows = column 4 rows"

definition turnaround_column :: "row list \<Rightarrow> float64 list" where
  "turnaround_column rows = column 5 rows"

definition exit_column :: "row list \<Rightarrow> float64 list" where
  "exit_column rows = column 6 rows"

text \<open>The identity \<^verbatim>\<open>turnaroundTime == waitingTime + burstDuration\<close> on one row.\<close>

definition turnaround_identity :: "row \<Rightarrow> bool" where
  "turnaround_identity r =
     (cell_value (r ! 5) = fadd (cell_value (r ! 4)) (cell_value (r ! 2)))"

text \<open>The arithmetic mean of a column: \<^verbatim>\<open>sum(...)/n\<close>.\<close>

definition mean :: "float64 list \<Rightarrow> float64" where
  "mean xs = fdiv (foldl fadd (Fin 0) xs) (float64_len (length xs))"

text \<open>Two half-open intervals \<open>[Start, Stop)\<close> share an instant.\<close>

definition overlap :: "TimeSlice \<Rightarrow> TimeSlice \<Rightarrow> bool" where
  "overlap a b = (Start a <s Stop b \<and> Start b <s Stop a)"

definition slice_length :: "TimeSlice \<Rightarrow> int64" where
  "slice_length a = Stop a - Start a"

text \<open>
  \<^verbatim>\<open>main\<close> (lines 32-42) passes the one slice it loaded to the four schedulers in
  turn, the last with a quantum of 10; each scheduler sees what the one before left in
  the slice.
\<close>

definition main_schedules :: "Process list \<Rightarrow> Output list option" where
  "main_schedules processes =
     (let r1 = FCFSSchedule processes;
          r2 = SJFSchedule (fst r1)
      in case SJFPrioritySchedule (fst r2) of
           None \<Rightarrow> None
         | Some r3 \<Rightarrow>
             (case RRSchedule (fst r3) 10 of
                None \<Rightarrow> None
              | Some r4 \<Rightarrow> Some [snd r1, snd r2, snd r3, snd r4]))"

text \<open>
  The shape of a row of \<^verbatim>\<open>FCFSSchedule\<close> and \<^verbatim>\<open>SJFSchedule\<close> for process
  \<open>p\<close>: for some waiting time \<open>w\<close>, the Turnaround cell is the burst plus \<open>w\<close>
  and the Exit cell the burst plus the arrival plus \<open>w\<close>, in \<^verbatim>\<open>int64\<close>
  arithmetic.
\<close>

definition fcfs_row :: "Process \<Rightarrow> int64 \<Rightarrow> row" where
  "fcfs_row p w =
     [SprintInt (ProcessID p), SprintInt (Priority p), SprintInt (BurstDuration p),
      SprintInt (ArrivalTime p), SprintInt w, SprintInt (BurstDuration p + w),
      SprintInt (BurstDuration p + ArrivalTime p + w)]"

text \<open>
  The state in which both tick-driven loops spin on two processes: nothing is left to
  run and the table has one row.
\<close>

definition stuck :: "sim_vars \<Rightarrow> bool" where
  "stuck v = (remainingTime v = [0, 0] \<and> length (schedule v) = 1)"

section \<open>Inputs\<close>

text \<open>Arrivals \<open>[0,1,2]\<close>, bursts \<open>[5,3,2]\<close>.\<close>

definition fcfs_example :: "Process list" where
  "fcfs_example =
     [\<lparr>ProcessID = 1, ArrivalTime = 0, BurstDuration = 5, Priority = 0\<rparr>,
      \<lparr>ProcessID = 2, ArrivalTime = 1, BurstDuration = 3, Priority = 0\<rparr>,
      \<lparr>ProcessID = 3, ArrivalTime = 2, BurstDuration = 2, Priority = 0\<rparr>]"

text \<open>Arrivals \<open>[0,1]\<close>, bursts \<open>[5,3]\<close>, priorities \<open>[2,1]\<close>.\<close>

definition priority_example :: "Process list" where
  "priority_example =
     [\<lparr>ProcessID = 1, ArrivalTime = 0, BurstDuration = 5, Priority = 2\<rparr>,
      \<lparr>ProcessID = 2, ArrivalTime = 1, BurstDuration = 3, Priority = 1\<rparr>]"

text \<open>One process that arrives at 0 with the given burst.\<close>

definition single :: "int64 \<Rightarrow> Process list" where
  "single burst = [\<lparr>ProcessID = 1, ArrivalTime = 0, BurstDuration = burst, Priority = 0\<rparr>]"

text \<open>Two processes that arrive at 0 with the given bursts.\<close>

definition pair_at_zero :: "int64 \<Rightarrow> int64 \<Rightarrow> Process list" where
  "pair_at_zero b1 b2 =
     [\<lparr>ProcessID = 1, ArrivalTime = 0, BurstDuration = b1, Priority = 0\<rparr>,
      \<lparr>ProcessID = 2, ArrivalTime = 0, BurstDuration = b2, Priority = 0\<rparr>]"

text \<open>The shorter job arrives later: arrivals \<open>[0,5]\<close>, bursts \<open>[2,1]\<close>.\<close>

definition late_short_job :: "Process list" where
  "late_short_job =
     [\<lparr>ProcessID = 1, ArrivalTime = 0, BurstDuration = 2, Priority = 0\<rparr>,
      \<lparr>ProcessID = 2, ArrivalTime = 5, BurstDuration = 1, Priority = 0\<rparr>]"

text \<open>Two records with the same \<^verbatim>\<open>ProcessID\<close>.\<close>

definition duplicate_pid :: "Process list" where
  "duplicate_pid =
     [\<lparr>ProcessID = 1, ArrivalTime = 0, BurstDuration = 1, Priority = 0\<rparr>,
      \<lparr>ProcessID = 1, ArrivalTime = 0, BurstDuration = 1, Priority = 0\<rparr>]"

section \<open>Evaluation\<close>

lemmas signed_order = word_sless_alt word_sle_eq

lemmas fcfs_defs = FCFSSchedule_def SJFSchedule_def sortSlice_def fcfs_output_def
  fcfs_loop_def fcfs_init_def fcfs_iter_def float64_of_def float64_len_def Let_def

lemmas sim_defs = SJFPrioritySchedule_def RRSchedule_def sim_output_def sim_init_def
  resetWaiting_def selectProcess_def prio_run_def prio_body_def loop_cond_def
  rr_dispatch_def rr_body_def lastArrivalTime_def MaxInt64_def FormatInt_def
  float64_of_def float64_len_def Let_def

lemmas reading_defs = cell_value_def column_def wait_column_def turnaround_column_def
  exit_column_def turnaround_identity_def mean_def overlap_def slice_length_def

section \<open>The worked example of first-come, first-serve\<close>

text \<open>
  C5, as stated: on arrivals \<open>[0,1,2]\<close> and bursts \<open>[5,3,2]\<close> the waiting times are
  \<open>[0,4,6]\<close> and the completion times \<open>[5,9,11]\<close>. The completion times that
  \<^verbatim>\<open>FCFSSchedule\<close> prints are not these.
\<close>

theorem C5_completions_counterexample:
  "\<not> (wait_column (out_rows (snd (FCFSSchedule fcfs_example))) = [Fin 0, Fin 4, Fin 6]
      \<and> exit_column (out_rows (snd (FCFSSchedule fcfs_example))) = [Fin 5, Fin 9, Fin 11])"
  by (simp add: fcfs_example_def fcfs_defs reading_defs signed_order)

text \<open>
  C5, amended: on arrivals \<open>[0,1,2]\<close> and bursts \<open>[5,3,2]\<close> \<^verbatim>\<open>FCFSSchedule\<close>
  produces the waiting times \<open>[0,4,6]\<close> and the completion times \<open>[5,8,10]\<close>: the
  three bursts run back to back from time 0.
\<close>

theorem C5_fcfs_example:
  "wait_column (out_rows (snd (FCFSSchedule fcfs_example))) = [Fin 0, Fin 4, Fin 6]
   \<and> exit_column (out_rows (snd (FCFSSchedule fcfs_example))) = [Fin 5, Fin 8, Fin 10]
   \<and> out_gantt (snd (FCFSSchedule fcfs_example)) =
       [\<lparr>PID = 1, Start = 0, Stop = 5\<rparr>, \<lparr>PID = 2, Start = 5, Stop = 8\<rparr>,
        \<lparr>PID = 3, Start = 8, Stop = 10\<rparr>]"
  by (simp add: fcfs_example_def fcfs_defs reading_defs signed_order)

section \<open>No processes\<close>

text \<open>
  C8, as stated: with zero processes a scheduler fails with an \<^verbatim>\<open>EmptyProcessSet\<close>
  error instead of dividing by zero. \<^verbatim>\<open>FCFSSchedule\<close> on the empty slice returns
  normally and hands three NaN (\<open>0/0\<close>) to the table.
\<close>

theorem C8_fcfs_empty_counterexample:
  "FCFSSchedule [] =
     ([], \<lparr>out_gantt = [], out_rows = [], out_wait = NaN, out_turnaround = NaN,
           out_throughput = NaN\<rparr>)"
  by (simp add: fcfs_defs)

text \<open>
  C8, amended: no scheduler checks for an empty process set. Invoked with zero
  processes, each of the four returns normally with an empty chart and an empty table,
  and its average wait, average turnaround and throughput are the NaN of \<open>0/0\<close>.
\<close>

theorem C8_empty_process_set:
  "snd (FCFSSchedule []) =
     \<lparr>out_gantt = [], out_rows = [], out_wait = NaN, out_turnaround = NaN, out_throughput = NaN\<rparr>
   \<and> snd (SJFSchedule []) =
     \<lparr>out_gantt = [], out_rows = [], out_wait = NaN, out_turnaround = NaN, out_throughput = NaN\<rparr>
   \<and> map_option snd (SJFPrioritySchedule []) = Some
     \<lparr>out_gantt = [], out_rows = [], out_wait = NaN, out_turnaround = NaN, out_throughput = NaN\<rparr>
   \<and> map_option snd (RRSchedule [] timeQuantum) = Some
     \<lparr>out_gantt = [], out_rows = [], out_wait = NaN, out_turnaround = NaN, out_throughput = NaN\<rparr>"
  by (simp add: fcfs_defs sim_defs prio_loop.simps rr_loop.simps)

section \<open>The priority scheduler's clock\<close>

text \<open>
  C3: \<^verbatim>\<open>SJFPrioritySchedule\<close> advances \<^verbatim>\<open>serviceTime\<close> by one per tick, and on
  arrivals \<open>[0,1]\<close>, bursts \<open>[5,3]\<close>, priorities \<open>[2,1]\<close> process 2 preempts
  process 1 at tick 1 and runs to completion at tick 4 before process 1 resumes.
  Evaluated on that input, the scheduler runs process 1 five times, each slice stamped
  \<open>[0,1)\<close> because the clock only moves on an idle pass, then process 2 once, and stops
  as soon as both have a row.
\<close>

theorem C3_priority_example:
  "map_option (out_gantt \<circ> snd) (SJFPrioritySchedule priority_example) = Some
     [\<lparr>PID = 1, Start = 0, Stop = 1\<rparr>, \<lparr>PID = 1, Start = 0, Stop = 1\<rparr>,
      \<lparr>PID = 1, Start = 0, Stop = 1\<rparr>, \<lparr>PID = 1, Start = 0, Stop = 1\<rparr>,
      \<lparr>PID = 1, Start = 0, Stop = 1\<rparr>, \<lparr>PID = 2, Start = 1, Stop = 2\<rparr>]
   \<and> map_option remainingTime (prio_loop priority_example (sim_init priority_example)) =
       Some [0, 2]"
  by (simp add: priority_example_def sim_defs prio_loop.simps signed_order)

section \<open>Round-robin dispatch\<close>

text \<open>
  C4: every dispatch of \<^verbatim>\<open>RRSchedule\<close> emits an interval of length
  \<open>min(remainingTime, timeQuantum)\<close> that starts at the current \<^verbatim>\<open>serviceTime\<close>,
  and one process of burst 7 with quantum 3 gives three intervals of lengths 3, 3, 1 and
  completes at 7. Evaluated: burst 7 with quantum 3 gives the single interval \<open>[0,3)\<close>
  and leaves 4 units unserved; burst 2 with quantum 3 is dispatched at time 0 and gets
  the interval \<open>[-1,2)\<close> of length 3.
\<close>

theorem C4_round_robin_intervals:
  "map_option (out_gantt \<circ> snd) (RRSchedule (single 7) 3) =
     Some [\<lparr>PID = 1, Start = 0, Stop = 3\<rparr>]
   \<and> map_option remainingTime (rr_loop (single 7) 3 (sim_init (single 7))) = Some [4]
   \<and> map_option (out_gantt \<circ> snd) (RRSchedule (single 2) 3) =
     Some [\<lparr>PID = 1, Start = - 1, Stop = 2\<rparr>]
   \<and> slice_length \<lparr>PID = 1, Start = - 1, Stop = 2\<rparr> = 3"
  by (simp add: single_def sim_defs rr_loop.simps signed_order reading_defs)

section \<open>Rows and averages\<close>

text \<open>
  C1: every row of every scheduler satisfies
  \<^verbatim>\<open>turnaroundTime == waitingTime + burstDuration\<close>. Evaluated on one process of
  burst 5 arriving at 0: the row of \<^verbatim>\<open>SJFPrioritySchedule\<close> has wait 0 and
  turnaround 0, and the row of \<^verbatim>\<open>RRSchedule\<close> (quantum 10, six cells) has wait 0
  and turnaround 0 as well, while the row of \<^verbatim>\<open>FCFSSchedule\<close> has turnaround 5.
\<close>

theorem C1_turnaround_identity_rows:
  "map_option (out_rows \<circ> snd) (SJFPrioritySchedule (single 5)) = Some
     [[SprintInt 1, SprintInt 0, SprintInt 5, SprintInt 0, SprintInt 0,
       SprintFloat (Fin 0), SprintFloat (Fin 5)]]
   \<and> \<not> turnaround_identity
     [SprintInt 1, SprintInt 0, SprintInt 5, SprintInt 0, SprintInt 0,
      SprintFloat (Fin 0), SprintFloat (Fin 5)]
   \<and> map_option (out_rows \<circ> snd) (RRSchedule (single 5) 10) = Some
     [[SprintInt 1, SprintInt 0, SprintInt 5, SprintInt 0,
       SprintFloat (Fin 0), SprintFloat (Fin 0)]]
   \<and> \<not> turnaround_identity
     [SprintInt 1, SprintInt 0, SprintInt 5, SprintInt 0,
      SprintFloat (Fin 0), SprintFloat (Fin 0)]
   \<and> map turnaround_identity (out_rows (snd (FCFSSchedule (single 5)))) = [True]"
  by (simp add: single_def sim_defs fcfs_defs prio_loop.simps rr_loop.simps signed_order
      reading_defs)

text \<open>
  C2: the summary is the mean of the Wait column, the mean of the Turnaround column, and
  the process count over the completion time of the process that finishes last.
  Evaluated on arrivals \<open>[0,1]\<close>, bursts \<open>[5,3]\<close>, priorities \<open>[2,1]\<close>:
  \<^verbatim>\<open>SJFPrioritySchedule\<close> reports an average wait of \<open>1/2\<close> over a Wait column
  of zeros and a throughput of 2 over an Exit column \<open>[5,4]\<close>; \<^verbatim>\<open>RRSchedule\<close>
  (quantum 10) reports an average wait of 6 over the Wait column \<open>[0,5]\<close> and
  an infinite throughput, its \<^verbatim>\<open>lastCompletion\<close> being never assigned. On the same
  input \<^verbatim>\<open>FCFSSchedule\<close> reports the mean of its Wait column, 2.
\<close>

theorem C2_summary_values:
  "map_option (out_wait \<circ> snd) (SJFPrioritySchedule priority_example) = Some (Fin (1 / 2))
   \<and> map_option (mean \<circ> wait_column \<circ> out_rows \<circ> snd) (SJFPrioritySchedule priority_example)
       = Some (Fin 0)
   \<and> map_option (out_throughput \<circ> snd) (SJFPrioritySchedule priority_example) = Some (Fin 2)
   \<and> map_option (exit_column \<circ> out_rows \<circ> snd) (SJFPrioritySchedule priority_example)
       = Some [Fin 5, Fin 4]
   \<and> map_option (out_wait \<circ> snd) (RRSchedule priority_example 10) = Some (Fin 6)
   \<and> map_option (mean \<circ> wait_column \<circ> out_rows \<circ> snd) (RRSchedule priority_example 10)
       = Some (Fin (5 / 2))
   \<and> map_option (out_throughput \<circ> snd) (RRSchedule priority_example 10) = Some PosInf
   \<and> out_wait (snd (FCFSSchedule priority_example)) = Fin 2
   \<and> mean (wait_column (out_rows (snd (FCFSSchedule priority_example)))) = Fin 2"
  by (simp add: priority_example_def sim_defs fcfs_defs prio_loop.simps rr_loop.simps
      signed_order reading_defs)

section \<open>The caller's slice\<close>

text \<open>
  C6: no scheduler permanently reorders the caller's process slice, so that the
  schedulers that run later see the original input. Evaluated on two processes arriving
  at 0 with bursts 2 and 1: \<^verbatim>\<open>SJFSchedule\<close> sorts the caller's slice in place and
  leaves process 2 in front, and in the sequence of \<^verbatim>\<open>main\<close> the priority scheduler,
  which breaks the tie between equal priorities by index, then runs process 2 first,
  whereas on the slice as loaded it runs process 1 first.
\<close>

theorem C6_sjf_reorders_slice:
  "fst (SJFSchedule (pair_at_zero 2 1)) = rev (pair_at_zero 2 1)
   \<and> fst (FCFSSchedule (pair_at_zero 2 1)) = pair_at_zero 2 1
   \<and> map_option (\<lambda>outs. out_gantt (outs ! 2)) (main_schedules (pair_at_zero 2 1)) = Some
       [\<lparr>PID = 2, Start = 0, Stop = 1\<rparr>, \<lparr>PID = 1, Start = 0, Stop = 1\<rparr>]
   \<and> map_option (out_gantt \<circ> snd) (SJFPrioritySchedule (pair_at_zero 2 1)) = Some
       [\<lparr>PID = 1, Start = 0, Stop = 1\<rparr>, \<lparr>PID = 1, Start = 0, Stop = 1\<rparr>,
        \<lparr>PID = 2, Start = 0, Stop = 1\<rparr>]"
  by (simp add: pair_at_zero_def main_schedules_def sim_defs fcfs_defs prio_loop.simps
      rr_loop.simps signed_order)

section \<open>The chart\<close>

text \<open>
  C7: within one run, intervals of distinct processes never overlap and the chart is
  ordered by start time. Evaluated: \<^verbatim>\<open>FCFSSchedule\<close> on two processes arriving at 0
  with bursts 5 and 3 charts \<open>[0,5)\<close> for process 1 and \<open>[0,8)\<close> for process 2;
  \<^verbatim>\<open>SJFPrioritySchedule\<close> on bursts 1 and 1 charts \<open>[0,1)\<close> for both;
  \<^verbatim>\<open>RRSchedule\<close> (quantum 10) on bursts 1 and 1 charts \<open>[-9,1)\<close> and \<open>[-8,2)\<close>;
  \<^verbatim>\<open>SJFSchedule\<close> on arrivals \<open>[0,5]\<close> with bursts \<open>[2,1]\<close> charts a slice that
  starts at 0 before one that starts at \<open>-5\<close>.
\<close>

theorem C7_chart_overlaps:
  "out_gantt (snd (FCFSSchedule (pair_at_zero 5 3))) =
     [\<lparr>PID = 1, Start = 0, Stop = 5\<rparr>, \<lparr>PID = 2, Start = 0, Stop = 8\<rparr>]
   \<and> overlap \<lparr>PID = 1, Start = 0, Stop = 5\<rparr> \<lparr>PID = 2, Start = 0, Stop = 8\<rparr>
   \<and> map_option (out_gantt \<circ> snd) (SJFPrioritySchedule (pair_at_zero 1 1)) = Some
     [\<lparr>PID = 1, Start = 0, Stop = 1\<rparr>, \<lparr>PID = 2, Start = 0, Stop = 1\<rparr>]
   \<and> overlap \<lparr>PID = 1, Start = 0, Stop = 1\<rparr> \<lparr>PID = 2, Start = 0, Stop = 1\<rparr>
   \<and> map_option (out_gantt \<circ> snd) (RRSchedule (pair_at_zero 1 1) 10) = Some
     [\<lparr>PID = 1, Start = - 9, Stop = 1\<rparr>, \<lparr>PID = 2, Start = - 8, Stop = 2\<rparr>]
   \<and> overlap \<lparr>PID = 1, Start = - 9, Stop = 1\<rparr> \<lparr>PID = 2, Start = - 8, Stop = 2\<rparr>
   \<and> out_gantt (snd (SJFSchedule late_short_job)) =
     [\<lparr>PID = 2, Start = 0, Stop = 1\<rparr>, \<lparr>PID = 1, Start = - 5, Stop = 3\<rparr>]
   \<and> (- 5 :: int64) <s 0"
  by (simp add: pair_at_zero_def late_short_job_def sim_defs fcfs_defs prio_loop.simps
      rr_loop.simps signed_order reading_defs)

section \<open>Rows of the two batch schedulers\<close>

text \<open>
  The loop shared by \<^verbatim>\<open>FCFSSchedule\<close> and \<^verbatim>\<open>SJFSchedule\<close> fills row \<open>i\<close> with
  a row of the shape \<open>fcfs_row\<close> for process \<open>i\<close>, whatever the input.
\<close>

lemma fcfs_iter_row:
  "schedule (fcfs_iter ps v i) =
     (schedule v)[i := fcfs_row (ps ! i)
        (if 0 <s ArrivalTime (ps ! i) then serviceTime v - ArrivalTime (ps ! i)
         else waitingTime v)]"
  by (simp add: fcfs_iter_def fcfs_row_def Let_def)

lemma fcfs_fold_rows:
  "k \<le> length ps \<Longrightarrow>
   length (schedule (foldl (fcfs_iter ps) (fcfs_init ps) [0..<k])) = length ps
   \<and> (\<forall>i<k. \<exists>w. schedule (foldl (fcfs_iter ps) (fcfs_init ps) [0..<k]) ! i
                    = fcfs_row (ps ! i) w)"
proof (induction k)
  case 0
  then show ?case by (simp add: fcfs_init_def)
next
  case (Suc k)
  let ?v = "foldl (fcfs_iter ps) (fcfs_init ps) [0..<k]"
  from Suc have len: "length (schedule ?v) = length ps"
    and rows: "\<forall>i<k. \<exists>w. schedule ?v ! i = fcfs_row (ps ! i) w"
    and k: "k < length ps" by auto
  obtain w where w: "schedule (fcfs_iter ps ?v k) = (schedule ?v)[k := fcfs_row (ps ! k) w]"
    using fcfs_iter_row [of ps ?v k] by blast
  have "\<exists>w'. schedule (fcfs_iter ps ?v k) ! i = fcfs_row (ps ! i) w'" if "i < Suc k" for i
  proof (cases "i = k")
    case True
    with w len k show ?thesis by auto
  next
    case False
    with that have "i < k" by simp
    with rows w False show ?thesis by auto
  qed
  with w len show ?case by simp
qed

lemma fcfs_loop_rows:
  "i < length ps \<Longrightarrow> \<exists>w. schedule (fcfs_loop ps) ! i = fcfs_row (ps ! i) w"
  using fcfs_fold_rows [of "length ps" ps] by (simp add: fcfs_loop_def)

lemma FCFSSchedule_rows:
  "i < length ps \<Longrightarrow> \<exists>w. out_rows (snd (FCFSSchedule ps)) ! i = fcfs_row (ps ! i) w"
  using fcfs_loop_rows [of i ps] by (simp add: FCFSSchedule_def fcfs_output_def Let_def)

lemma SJFSchedule_rows:
  "i < length (sortSlice ps) \<Longrightarrow>
   \<exists>w. out_rows (snd (SJFSchedule ps)) ! i = fcfs_row (sortSlice ps ! i) w"
  using fcfs_loop_rows [of i "sortSlice ps"] by (simp add: SJFSchedule_def fcfs_output_def Let_def)

section \<open>A quantum that is not positive\<close>

lemma sint_succ_neg:
  fixes s :: int64
  assumes "s <s 0"
  shows "sint (s + 1) = sint s + 1"
proof -
  have lo: "- (2 ^ 63) \<le> sint s" using sint_ge [of s] by simp
  have neg: "sint s < 0" using assms by (simp add: word_sless_alt)
  have "sint (s + 1) = signed_take_bit 63 (sint s + 1)"
    by (simp add: sint_word_ariths)
  also have "\<dots> = sint s + 1"
    using lo neg by (intro signed_take_bit_int_eq_self) auto
  finally show ?thesis .
qed

text \<open>
  Once the only process has its row, a pass of the round-robin loop before time 0 finds
  nothing that has arrived and moves the clock by one.
\<close>

lemma rr_body_idle:
  assumes "schedule v = [r]" "r ! 0 = SprintInt 1" "serviceTime v <s 0"
  shows "rr_body (single b) q v = v\<lparr>serviceTime := serviceTime v + 1\<rparr>"
  using assms
  by (simp add: single_def rr_body_def rr_dispatch_def resetWaiting_def FormatInt_def
      signed_order)

lemma rr_cond_single:
  assumes "schedule v = [r]"
  shows "loop_cond (single b) v = (serviceTime v <s 0)"
  using assms by (simp add: single_def loop_cond_def lastArrivalTime_def signed_order)

lemma rr_loop_idle:
  assumes "schedule v = [r]" "r ! 0 = SprintInt 1" "nat (- sint (serviceTime v)) = n"
  shows "rr_loop (single b) q v =
    Some (v\<lparr>serviceTime := (if serviceTime v <s 0 then 0 else serviceTime v)\<rparr>)"
  using assms
proof (induction n arbitrary: v)
  case 0
  then have "\<not> serviceTime v <s 0" by (simp add: word_sless_alt)
  with 0 show ?case
    by (subst rr_loop.simps) (simp add: rr_cond_single)
next
  case (Suc n)
  then have neg: "serviceTime v <s 0" by (simp add: word_sless_alt)
  let ?v = "v\<lparr>serviceTime := serviceTime v + 1\<rparr>"
  have s: "sint (serviceTime ?v) = sint (serviceTime v) + 1"
    using sint_succ_neg [OF neg] by simp
  have "rr_loop (single b) q v = rr_loop (single b) q ?v"
    using Suc.prems(1,2) neg
    by (subst rr_loop.simps) (simp add: rr_cond_single rr_body_idle)
  also have "\<dots> = Some (?v\<lparr>serviceTime := (if serviceTime ?v <s 0 then 0 else serviceTime ?v)\<rparr>)"
    using Suc.prems s by (intro Suc.IH) auto
  also have "(if serviceTime ?v <s 0 then 0 else serviceTime ?v) = 0"
  proof -
    have "sint (serviceTime ?v) \<le> 0" using s neg by (simp add: word_sless_alt)
    then show ?thesis
      by (cases "sint (serviceTime ?v) = 0") (auto simp: word_sless_alt signed_eq_0_iff)
  qed
  finally show ?case using neg by simp
qed

text \<open>
  On one process that arrives at 0 with a positive burst, the call returns for every
  quantum \<open>q \<le> 0\<close>: the first pass dispatches the process once, and the passes after
  it only move the clock back up to 0.
\<close>

lemma RRSchedule_single_nonpositive:
  assumes "0 <s b" and "q \<le>s 0"
  shows "RRSchedule (single b) q = Some (single b,
     \<lparr>out_gantt = [\<lparr>PID = 1, Start = 0, Stop = q\<rparr>],
      out_rows = [[SprintInt 1, SprintInt 0, SprintInt b, SprintInt 0,
                  SprintFloat (Fin 0), SprintFloat (Fin 0)]],
      out_wait = Fin 0, out_turnaround = Fin 0, out_throughput = PosInf\<rparr>)"
proof -
  let ?r = "[SprintInt 1, SprintInt 0, SprintInt b, SprintInt 0,
             SprintFloat (Fin 0), SprintFloat (Fin 0)]"
  let ?v = "\<lparr>serviceTime = q + 1, totalTurnaround = Fin 0, lastCompletion = Fin 0,
             schedule = [?r], gantt = [\<lparr>PID = 1, Start = 0, Stop = q\<rparr>],
             waitingTimes = [0], remainingTime = [b - q]\<rparr>"
  have lt: "q <s b" using assms by (simp add: word_sless_alt word_sle_eq)
  have first: "rr_body (single b) q (sim_init (single b)) = ?v"
    using assms(1) lt
    by (simp add: single_def rr_body_def rr_dispatch_def resetWaiting_def sim_init_def
        FormatInt_def float64_of_def Let_def signed_order)
  have "rr_loop (single b) q (sim_init (single b)) = rr_loop (single b) q ?v"
    by (subst rr_loop.simps) (simp add: first, simp add: loop_cond_def single_def sim_init_def)
  also have "\<dots> = Some (?v\<lparr>serviceTime := (if serviceTime ?v <s 0 then 0 else serviceTime ?v)\<rparr>)"
    by (rule rr_loop_idle [where r = ?r and n = "nat (- sint (serviceTime ?v))"]) simp_all
  finally show ?thesis
    by (simp add: RRSchedule_def sim_output_def float64_len_def single_def)
qed

text \<open>
  Every interval that round robin puts on the chart ends one quantum after its start,
  in \<^verbatim>\<open>int64\<close> arithmetic, and the pass-end loop over the waiting times leaves the
  chart alone; so every interval of the output has the quantum as its length.
\<close>

lemma resetWaiting_fold_gantt:
  "gantt (foldl (\<lambda>v i.
        if ArrivalTime (ps ! i) = serviceTime v \<and> 0 <s remainingTime v ! i
           \<and> \<not> containsPID (schedule v) (ProcessID (ps ! i))
        then v\<lparr>waitingTimes := (waitingTimes v)[i := 0]\<rparr>
        else v) v xs) = gantt v"
  by (induction xs arbitrary: v) simp_all

lemma resetWaiting_gantt: "gantt (resetWaiting ps v) = gantt v"
  by (simp add: resetWaiting_def resetWaiting_fold_gantt)

lemma rr_dispatch_slices:
  "list_all (\<lambda>s. slice_length s = q) (gantt (fst vc)) \<Longrightarrow>
   list_all (\<lambda>s. slice_length s = q) (gantt (fst (rr_dispatch ps q vc i)))"
  by (simp add: rr_dispatch_def Let_def slice_length_def)

lemma rr_scan_slices:
  "list_all (\<lambda>s. slice_length s = q) (gantt (fst vc)) \<Longrightarrow>
   list_all (\<lambda>s. slice_length s = q) (gantt (fst (foldl (rr_dispatch ps q) vc xs)))"
  by (induction xs arbitrary: vc) (simp_all add: rr_dispatch_slices)

lemma rr_body_slices:
  "list_all (\<lambda>s. slice_length s = q) (gantt v) \<Longrightarrow>
   list_all (\<lambda>s. slice_length s = q) (gantt (rr_body ps q v))"
  using rr_scan_slices [of q "(v, False)" ps "[0..<length ps]"]
  by (simp add: rr_body_def Let_def resetWaiting_gantt)

lemma rr_loop_slices:
  assumes "rr_loop ps q v = Some y"
  shows "list_all (\<lambda>s. slice_length s = q) (gantt v) \<longrightarrow>
         list_all (\<lambda>s. slice_length s = q) (gantt y)"
proof (rule rr_loop.raw_induct [where P = "\<lambda>ps q v y.
    list_all (\<lambda>s. slice_length s = q) (gantt v) \<longrightarrow>
    list_all (\<lambda>s. slice_length s = q) (gantt y)"])
  show "rr_loop ps q v = Some y" by (rule assms)
next
  fix loop :: "Process list \<Rightarrow> int64 \<Rightarrow> sim_vars \<Rightarrow> sim_vars option" and ps q v y
  assume IH: "\<And>ps q v y. loop ps q v = Some y \<Longrightarrow>
      list_all (\<lambda>s. slice_length s = q) (gantt v) \<longrightarrow>
      list_all (\<lambda>s. slice_length s = q) (gantt y)"
    and unfolded: "(if loop_cond ps v then loop ps q (rr_body ps q v) else Some v) = Some y"
  show "list_all (\<lambda>s. slice_length s = q) (gantt v) \<longrightarrow>
        list_all (\<lambda>s. slice_length s = q) (gantt y)"
  proof
    assume g: "list_all (\<lambda>s. slice_length s = q) (gantt v)"
    show "list_all (\<lambda>s. slice_length s = q) (gantt y)"
    proof (cases "loop_cond ps v")
      case True
      with unfolded have "loop ps q (rr_body ps q v) = Some y" by simp
      with IH rr_body_slices [OF g] show ?thesis by blast
    next
      case False
      with unfolded g show ?thesis by simp
    qed
  qed
qed

lemma RRSchedule_slices:
  assumes "RRSchedule ps q = Some out"
  shows "fst out = ps \<and> list_all (\<lambda>s. slice_length s = q) (out_gantt (snd out))"
proof -
  from assms obtain y where y: "rr_loop ps q (sim_init ps) = Some y"
    and out: "out = (ps, sim_output ps y)"
    by (auto simp: RRSchedule_def)
  from rr_loop_slices [OF y] have "list_all (\<lambda>s. slice_length s = q) (gantt y)"
    by (simp add: sim_init_def)
  with out show ?thesis by (simp add: sim_output_def Let_def)
qed

lemma rr_dispatch_nonpositive:
  assumes "q \<le>s 0" "ArrivalTime (ps ! i) \<le>s serviceTime v" "0 <s remainingTime v ! i"
  shows "gantt (fst (rr_dispatch ps q (v, c) i)) =
           gantt v @ [\<lparr>PID = ProcessID (ps ! i), Start = serviceTime v, Stop = serviceTime v + q\<rparr>]
       \<and> serviceTime (fst (rr_dispatch ps q (v, c) i)) = serviceTime v + q
       \<and> remainingTime (fst (rr_dispatch ps q (v, c) i)) =
           (remainingTime v)[i := remainingTime v ! i - q]
       \<and> totalTurnaround (fst (rr_dispatch ps q (v, c) i)) = totalTurnaround v
       \<and> snd (rr_dispatch ps q (v, c) i) = c"
proof -
  have lt: "q <s remainingTime v ! i"
    using assms(1,3) by (simp add: word_sless_alt word_sle_eq)
  show ?thesis using assms(2,3) lt
    by (simp add: rr_dispatch_def Let_def)
qed

text \<open>
  C9, as stated: \<^verbatim>\<open>RRSchedule\<close> with a quantum of at most 0 fails with an
  \<^verbatim>\<open>InvalidQuantum\<close> error and produces no schedule. With quantum 0 on one process
  of burst 5 the call returns normally, with a chart of one empty interval and a table
  of one row.
\<close>

theorem C9_zero_quantum_counterexample:
  "RRSchedule (single 5) 0 = Some (single 5,
     \<lparr>out_gantt = [\<lparr>PID = 1, Start = 0, Stop = 0\<rparr>],
      out_rows = [[SprintInt 1, SprintInt 0, SprintInt 5, SprintInt 0,
                  SprintFloat (Fin 0), SprintFloat (Fin 0)]],
      out_wait = Fin 0, out_turnaround = Fin 0, out_throughput = PosInf\<rparr>)"
  by (simp add: single_def sim_defs rr_loop.simps signed_order)

text \<open>
  C9, amended: \<^verbatim>\<open>RRSchedule\<close> does not check its quantum and has no
  \<^verbatim>\<open>InvalidQuantum\<close> error. Invoked with a quantum \<open>q \<le> 0\<close> on any process list,
  every dispatch of an arrived process with remaining time above 0 takes the branch
  \<^verbatim>\<open>remainingTime[i] > timeQuantum\<close>: it appends to the chart the interval from the
  current \<^verbatim>\<open>serviceTime\<close> to \<^verbatim>\<open>serviceTime + q\<close>, adds \<open>q\<close> to
  \<^verbatim>\<open>serviceTime\<close>, subtracts \<open>q\<close> from the remaining time of the process and does
  not complete it (\<^verbatim>\<open>totalTurnaround\<close> and the flag \<^verbatim>\<open>completed\<close> keep their
  values). Whenever the invocation returns, it leaves the caller's slice as it was and
  hands over a chart in which every interval has the length \<open>q\<close>, that is, a degraded
  schedule and not an error.
\<close>

theorem C9_nonpositive_quantum:
  assumes "q \<le>s 0"
  shows "(ArrivalTime (ps ! i) \<le>s serviceTime v \<and> 0 <s remainingTime v ! i \<longrightarrow>
           gantt (fst (rr_dispatch ps q (v, c) i)) =
             gantt v @ [\<lparr>PID = ProcessID (ps ! i), Start = serviceTime v,
                         Stop = serviceTime v + q\<rparr>]
           \<and> serviceTime (fst (rr_dispatch ps q (v, c) i)) = serviceTime v + q
           \<and> remainingTime (fst (rr_dispatch ps q (v, c) i)) =
               (remainingTime v)[i := remainingTime v ! i - q]
           \<and> totalTurnaround (fst (rr_dispatch ps q (v, c) i)) = totalTurnaround v
           \<and> snd (rr_dispatch ps q (v, c) i) = c)
       \<and> (RRSchedule ps q = Some out \<longrightarrow>
           fst out = ps \<and> list_all (\<lambda>s. slice_length s = q) (out_gantt (snd out)))"
  using rr_dispatch_nonpositive [OF assms, of ps i v c] RRSchedule_slices [of ps q out]
  by blast

theorem C9_nonpositive_quantum_witness:
  "(- 3 :: int64) \<le>s 0
   \<and> ArrivalTime (single 5 ! 0) \<le>s serviceTime (sim_init (single 5))
   \<and> 0 <s remainingTime (sim_init (single 5)) ! 0
   \<and> RRSchedule (single 5) (- 3) = Some (single 5,
       \<lparr>out_gantt = [\<lparr>PID = 1, Start = 0, Stop = - 3\<rparr>],
        out_rows = [[SprintInt 1, SprintInt 0, SprintInt 5, SprintInt 0,
                    SprintFloat (Fin 0), SprintFloat (Fin 0)]],
        out_wait = Fin 0, out_turnaround = Fin 0, out_throughput = PosInf\<rparr>)
   \<and> gantt (fst (rr_dispatch (single 5) (- 3) (sim_init (single 5), False) 0)) =
       [\<lparr>PID = 1, Start = 0, Stop = - 3\<rparr>]
   \<and> serviceTime (fst (rr_dispatch (single 5) (- 3) (sim_init (single 5), False) 0)) = - 3
   \<and> remainingTime (fst (rr_dispatch (single 5) (- 3) (sim_init (single 5), False) 0)) = [8]
   \<and> totalTurnaround (fst (rr_dispatch (single 5) (- 3) (sim_init (single 5), False) 0)) = Fin 0
   \<and> snd (rr_dispatch (single 5) (- 3) (sim_init (single 5), False) 0) = False
   \<and> list_all (\<lambda>s. slice_length s = - 3) [\<lparr>PID = 1, Start = 0, Stop = - 3\<rparr>]"
proof -
  have q: "(- 3 :: int64) \<le>s 0" by (simp add: signed_order)
  have a: "ArrivalTime (single 5 ! 0) \<le>s serviceTime (sim_init (single 5))"
    by (simp add: single_def sim_init_def signed_order)
  have r: "0 <s remainingTime (sim_init (single 5)) ! 0"
    by (simp add: single_def sim_init_def signed_order)
  have out: "RRSchedule (single 5) (- 3) = Some (single 5,
       \<lparr>out_gantt = [\<lparr>PID = 1, Start = 0, Stop = - 3\<rparr>],
        out_rows = [[SprintInt 1, SprintInt 0, SprintInt 5, SprintInt 0,
                    SprintFloat (Fin 0), SprintFloat (Fin 0)]],
        out_wait = Fin 0, out_turnaround = Fin 0, out_throughput = PosInf\<rparr>)"
    by (simp add: single_def sim_defs rr_loop.simps signed_order)
  from C9_nonpositive_quantum [OF q, of "single 5" 0 "sim_init (single 5)" False
      "(single 5, \<lparr>out_gantt = [\<lparr>PID = 1, Start = 0, Stop = - 3\<rparr>],
        out_rows = [[SprintInt 1, SprintInt 0, SprintInt 5, SprintInt 0,
                    SprintFloat (Fin 0), SprintFloat (Fin 0)]],
        out_wait = Fin 0, out_turnaround = Fin 0, out_throughput = PosInf\<rparr>)"] q a r out
  show ?thesis by (simp add: single_def sim_init_def)
qed

section \<open>Two records with one process id\<close>

lemma prio_body_stuck:
  "stuck v \<Longrightarrow> prio_body duplicate_pid v = v\<lparr>serviceTime := serviceTime v + 1\<rparr>"
  by (simp add: stuck_def duplicate_pid_def prio_body_def selectProcess_def resetWaiting_def
      signed_order)

lemma rr_body_stuck:
  "stuck v \<Longrightarrow> rr_body duplicate_pid q v = v\<lparr>serviceTime := serviceTime v + 1\<rparr>"
  by (simp add: stuck_def duplicate_pid_def rr_body_def rr_dispatch_def resetWaiting_def
      signed_order)

lemma loop_cond_stuck: "stuck v \<Longrightarrow> loop_cond duplicate_pid v"
  by (simp add: stuck_def duplicate_pid_def loop_cond_def)

text \<open>
  A loop that returns was not started in a stuck state: by induction on the unfolding of
  the loop, since a pass from a stuck state leads to a stuck state and the exit test
  fails there, whatever the clock has wrapped around to.
\<close>

lemma prio_loop_stuck:
  assumes "prio_loop ps v = Some y"
  shows "ps = duplicate_pid \<longrightarrow> \<not> stuck v"
proof (rule prio_loop.raw_induct [where P = "\<lambda>ps v y. ps = duplicate_pid \<longrightarrow> \<not> stuck v"])
  show "prio_loop ps v = Some y" by (rule assms)
next
  fix loop :: "Process list \<Rightarrow> sim_vars \<Rightarrow> sim_vars option" and ps v y
  assume IH: "\<And>ps v y. loop ps v = Some y \<Longrightarrow> ps = duplicate_pid \<longrightarrow> \<not> stuck v"
    and unfolded: "(if loop_cond ps v then loop ps (prio_body ps v) else Some v) = Some y"
  show "ps = duplicate_pid \<longrightarrow> \<not> stuck v"
  proof (intro impI notI)
    assume ps: "ps = duplicate_pid" and s: "stuck v"
    from s ps have "loop_cond ps v" by (simp add: loop_cond_stuck)
    with unfolded have "loop ps (prio_body ps v) = Some y" by simp
    with IH ps have "\<not> stuck (prio_body ps v)" by blast
    moreover from s ps have "stuck (prio_body ps v)"
      by (simp add: prio_body_stuck) (simp add: stuck_def)
    ultimately show False by contradiction
  qed
qed

lemma rr_loop_stuck:
  assumes "rr_loop ps q v = Some y"
  shows "ps = duplicate_pid \<longrightarrow> \<not> stuck v"
proof (rule rr_loop.raw_induct [where P = "\<lambda>ps q v y. ps = duplicate_pid \<longrightarrow> \<not> stuck v"])
  show "rr_loop ps q v = Some y" by (rule assms)
next
  fix loop :: "Process list \<Rightarrow> int64 \<Rightarrow> sim_vars \<Rightarrow> sim_vars option" and ps q v y
  assume IH: "\<And>ps q v y. loop ps q v = Some y \<Longrightarrow> ps = duplicate_pid \<longrightarrow> \<not> stuck v"
    and unfolded: "(if loop_cond ps v then loop ps q (rr_body ps q v) else Some v) = Some y"
  show "ps = duplicate_pid \<longrightarrow> \<not> stuck v"
  proof (intro impI notI)
    assume ps: "ps = duplicate_pid" and s: "stuck v"
    from s ps have "loop_cond ps v" by (simp add: loop_cond_stuck)
    with unfolded have "loop ps q (rr_body ps q v) = Some y" by simp
    with IH ps have "\<not> stuck (rr_body ps q v)" by blast
    moreover from s ps have "stuck (rr_body ps q v)"
      by (simp add: rr_body_stuck) (simp add: stuck_def)
    ultimately show False by contradiction
  qed
qed

lemma prio_loop_step: "loop_cond ps v \<Longrightarrow> prio_loop ps v = prio_loop ps (prio_body ps v)"
  by (subst prio_loop.simps) simp

lemma rr_loop_step: "loop_cond ps v \<Longrightarrow> rr_loop ps q v = rr_loop ps q (rr_body ps q v)"
  by (subst rr_loop.simps) simp

text \<open>
  The priority scheduler reaches the stuck state after two passes (each record runs its
  one unit; the second finds the id already in the table), round robin with quantum 10
  after one.
\<close>

lemma prio_duplicate_reaches:
  "prio_loop duplicate_pid (sim_init duplicate_pid) =
   prio_loop duplicate_pid
     (prio_body duplicate_pid (prio_body duplicate_pid (sim_init duplicate_pid)))"
proof -
  have a: "loop_cond duplicate_pid (sim_init duplicate_pid)"
    by (simp add: duplicate_pid_def sim_defs signed_order)
  have b: "loop_cond duplicate_pid (prio_body duplicate_pid (sim_init duplicate_pid))"
    by (simp add: duplicate_pid_def sim_defs signed_order)
  show ?thesis
    by (rule trans [OF prio_loop_step [OF a] prio_loop_step [OF b]])
qed

lemma prio_duplicate_stuck:
  "stuck (prio_body duplicate_pid (prio_body duplicate_pid (sim_init duplicate_pid)))"
  by (simp add: stuck_def duplicate_pid_def sim_defs signed_order)

lemma rr_duplicate_reaches:
  "rr_loop duplicate_pid 10 (sim_init duplicate_pid) =
   rr_loop duplicate_pid 10 (rr_body duplicate_pid 10 (sim_init duplicate_pid))"
proof -
  have a: "loop_cond duplicate_pid (sim_init duplicate_pid)"
    by (simp add: duplicate_pid_def sim_defs signed_order)
  show ?thesis
    by (rule rr_loop_step [OF a])
qed

lemma rr_duplicate_stuck:
  "stuck (rr_body duplicate_pid 10 (sim_init duplicate_pid))"
  by (simp add: stuck_def duplicate_pid_def sim_defs signed_order)

text \<open>
  C10: on an input in which two records share a \<^verbatim>\<open>ProcessID\<close> (both arrive at 0
  with burst 1), neither \<^verbatim>\<open>SJFPrioritySchedule\<close> nor \<^verbatim>\<open>RRSchedule\<close> (quantum 10)
  terminates: the second record never gets a row, so the table stays one row short of
  the process count that the loop waits for.
\<close>

theorem C10_duplicate_pid_diverges:
  "SJFPrioritySchedule duplicate_pid = None \<and> RRSchedule duplicate_pid 10 = None"
proof -
  have "prio_loop duplicate_pid (sim_init duplicate_pid) \<noteq> Some y" for y
    using prio_loop_stuck [of duplicate_pid _ y] prio_duplicate_stuck
    by (auto simp: prio_duplicate_reaches)
  then have p: "prio_loop duplicate_pid (sim_init duplicate_pid) = None"
    by (cases "prio_loop duplicate_pid (sim_init duplicate_pid)") auto
  have "rr_loop duplicate_pid 10 (sim_init duplicate_pid) \<noteq> Some y" for y
    using rr_loop_stuck [of duplicate_pid 10 _ y] rr_duplicate_stuck
    by (auto simp: rr_duplicate_reaches)
  then have r: "rr_loop duplicate_pid 10 (sim_init duplicate_pid) = None"
    by (cases "rr_loop duplicate_pid 10 (sim_init duplicate_pid)") auto
  from p r show ?thesis by (simp add: SJFPrioritySchedule_def RRSchedule_def)
qed

end
